theory Spec2Isabelle
  imports Main "HOL-Library.AList"
begin

section \<open>Python primitives used by the scripts\<close>

text \<open>
  Byte strings and text strings are both character lists. The three string tests the
  scripts use are \<^verbatim>\<open>s.endswith(suf)\<close>, \<^verbatim>\<open>s.startswith(pre)\<close> and the substring
  test \<^verbatim>\<open>sub in s\<close>.
\<close>

type_synonym bytes = string

definition endswith :: "string \<Rightarrow> string \<Rightarrow> bool" where
  "endswith s suf = (length suf \<le> length s \<and> drop (length s - length suf) s = suf)"

definition startswith :: "string \<Rightarrow> string \<Rightarrow> bool" where
  "startswith s pre = (take (length pre) s = pre)"

fun str_in :: "string \<Rightarrow> string \<Rightarrow> bool" where
  "str_in sub [] = (sub = [])"
| "str_in sub (c # cs) = (startswith (c # cs) sub \<or> str_in sub cs)"

datatype exn =
  KeyError string | TypeError | IsADirectoryError | NotADirectoryError | FileNotFoundError

section \<open>The manifest patchers (add\_deps.py, add\_all\_deps.py)\<close>

text \<open>
  \<^verbatim>\<open>json.load\<close> yields a Python value built from dicts, lists, strings, numbers,
  booleans and \<^verbatim>\<open>None\<close>. A dict keeps its keys in insertion order, so it is an
  association list; \<^verbatim>\<open>json.load\<close> only builds dicts with distinct keys. The patchers
  never inspect a number, so a float is kept as its literal.
\<close>

datatype json =
    JNull
  | JBool bool
  | JInt int
  | JFloat string
  | JStr string
  | JArr "json list"
  | JObj "(string \<times> json) list"

text \<open>\<^verbatim>\<open>key in v\<close> for a string key: dict membership, list membership by equality,
  substring test on a string, and a TypeError on a value that is not a container.\<close>

fun py_contains :: "string \<Rightarrow> json \<Rightarrow> exn + bool" where
  "py_contains k (JObj kvs) = Inr (k \<in> set (map fst kvs))"
| "py_contains k (JArr xs) = Inr (JStr k \<in> set xs)"
| "py_contains k (JStr s) = Inr (str_in k s)"
| "py_contains k v = Inl TypeError"

text \<open>\<^verbatim>\<open>v[key]\<close> for a string key: only a dict can be indexed by a string, and a
  missing key raises KeyError.\<close>

fun py_getitem :: "json \<Rightarrow> string \<Rightarrow> exn + json" where
  "py_getitem (JObj kvs) k = (case map_of kvs k of None \<Rightarrow> Inl (KeyError k) | Some v \<Rightarrow> Inr v)"
| "py_getitem v k = Inl TypeError"

text \<open>\<^verbatim>\<open>v[key] = x\<close>: a dict replaces the value of a key it has, in place, and appends
  a new key at the end; every other value raises TypeError.\<close>

fun py_setitem :: "json \<Rightarrow> string \<Rightarrow> json \<Rightarrow> exn + json" where
  "py_setitem (JObj kvs) k x = Inr (JObj (AList.update k x kvs))"
| "py_setitem v k x = Inl TypeError"

definition missing_deps :: "(string \<times> string) list" where
  "missing_deps =
    [(''connect-mongo'', ''^4.6.0''),
     (''express'', ''^4.18.2''),
     (''express-session'', ''^1.17.3''),
     (''mongoose'', ''^7.5.0''),
     (''socket.io'', ''^4.7.2''),
     (''express-fileupload'', ''^1.4.0''),
     (''winston'', ''^3.10.0''),
     (''dotenv'', ''^16.3.1'')]"

definition all_deps :: "(string \<times> string) list" where
  "all_deps =
    [(''handlebars'', ''^4.7.8''),
     (''@sentry/node'', ''^7.77.0''),
     (''express-fileupload'', ''^1.4.0''),
     (''swagger-jsdoc'', ''^6.2.8''),
     (''swagger-ui-express'', ''^5.0.0''),
     (''node-cron'', ''^3.0.2''),
     (''express-validator'', ''^7.0.1''),
     (''cookie-parser'', ''^1.4.6''),
     (''express-ejs-layouts'', ''^2.5.1''),
     (''method-override'', ''^3.0.0''),
     (''moment'', ''^2.29.4''),
     (''uuid'', ''^9.0.1''),
     (''axios'', ''^1.6.0''),
     (''lodash'', ''^4.17.21''),
     (''async'', ''^3.2.4'')]"

text \<open>
  One pass of the merge loop, shared by both scripts:
  \<^verbatim>\<open>
  if dep not in package['dependencies']:
      package['dependencies'][dep] = version
      added_count += 1
  \<close>
  \<^verbatim>\<open>package['dependencies']\<close> is evaluated first (KeyError when the key is missing,
  TypeError when \<^verbatim>\<open>package\<close> is not a dict). The assignment mutates the inner dict,
  which the outer dict still holds under the same key. add\_deps.py keeps no counter;
  there the count is ignored.
\<close>

definition merge_step :: "string \<times> string \<Rightarrow> json \<times> nat \<Rightarrow> exn + (json \<times> nat)" where
  "merge_step dv st =
    (case st of (package, added_count) \<Rightarrow>
     case dv of (dep, version) \<Rightarrow>
      (case py_getitem package ''dependencies'' of
         Inl e \<Rightarrow> Inl e
       | Inr deps \<Rightarrow>
          (case py_contains dep deps of
             Inl e \<Rightarrow> Inl e
           | Inr True \<Rightarrow> Inr (package, added_count)
           | Inr False \<Rightarrow>
              (case py_setitem deps dep (JStr version) of
                 Inl e \<Rightarrow> Inl e
               | Inr deps' \<Rightarrow>
                  (case py_setitem package ''dependencies'' deps' of
                     Inl e \<Rightarrow> Inl e
                   | Inr package' \<Rightarrow> Inr (package', added_count + 1))))))"

fun merge_loop :: "(string \<times> string) list \<Rightarrow> json \<times> nat \<Rightarrow> exn + (json \<times> nat)" where
  "merge_loop [] st = Inr st"
| "merge_loop (dv # dvs) st =
    (case merge_step dv st of Inl e \<Rightarrow> Inl e | Inr st' \<Rightarrow> merge_loop dvs st')"

text \<open>
  add\_deps.py: the argument is the value read from package.json, the result is the value
  written back (always written), or the exception that ends the script.
\<close>

definition add_deps :: "json \<Rightarrow> exn + json" where
  "add_deps package =
    (case py_contains ''dependencies'' package of
       Inl e \<Rightarrow> Inl e
     | Inr present \<Rightarrow>
        (case (if \<not> present then py_setitem package ''dependencies'' (JObj []) else Inr package) of
           Inl e \<Rightarrow> Inl e
         | Inr package1 \<Rightarrow>
            (case merge_loop missing_deps (package1, 0) of
               Inl e \<Rightarrow> Inl e
             | Inr (package2, n) \<Rightarrow> Inr package2)))"

text \<open>
  add\_all\_deps.py has no guard before the loop, and writes the file only when something
  was added; otherwise package.json keeps the value that was read. The result is the
  value package.json holds afterwards.
\<close>

definition add_all_deps :: "json \<Rightarrow> exn + json" where
  "add_all_deps package =
    (case merge_loop all_deps (package, 0) of
       Inl e \<Rightarrow> Inl e
     | Inr (package', added_count) \<Rightarrow>
        (if added_count > 0 then Inr package' else Inr package))"

section \<open>The static server (serve.py)\<close>

subsection \<open>Files on disk\<close>

text \<open>
  The file system is what the operating system answers for a path string handed to
  \<^verbatim>\<open>os.path.exists\<close>, \<^verbatim>\<open>os.path.isdir\<close>, \<^verbatim>\<open>os.path.isfile\<close>, \<^verbatim>\<open>os.listdir\<close> and
  \<^verbatim>\<open>open\<close>: nothing, a regular file (content and modification time in whole seconds),
  or a directory (its entries). Resolution of the string against the working directory
  is the operating system's and is part of that answer. Every file is readable;
  permission failures are not modelled.
\<close>

datatype node = File bytes int | Dir "string list"

type_synonym filesystem = "string \<Rightarrow> node option"

definition os_path_exists :: "filesystem \<Rightarrow> string \<Rightarrow> bool" where
  "os_path_exists fs p = (fs p \<noteq> None)"

definition os_path_isdir :: "filesystem \<Rightarrow> string \<Rightarrow> bool" where
  "os_path_isdir fs p = (case fs p of Some (Dir es) \<Rightarrow> True | _ \<Rightarrow> False)"

definition os_path_isfile :: "filesystem \<Rightarrow> string \<Rightarrow> bool" where
  "os_path_isfile fs p = (case fs p of Some (File b m) \<Rightarrow> True | _ \<Rightarrow> False)"

text \<open>\<^verbatim>\<open>open(p, 'rb')\<close> followed by reading the whole file; the modification time is what
  \<^verbatim>\<open>os.fstat\<close> reports for the open file.\<close>

definition open_rb :: "filesystem \<Rightarrow> string \<Rightarrow> exn + (bytes \<times> int)" where
  "open_rb fs p =
    (case fs p of
       None \<Rightarrow> Inl FileNotFoundError
     | Some (Dir es) \<Rightarrow> Inl IsADirectoryError
     | Some (File b m) \<Rightarrow> Inr (b, m))"

definition os_listdir :: "filesystem \<Rightarrow> string \<Rightarrow> exn + string list" where
  "os_listdir fs p =
    (case fs p of
       None \<Rightarrow> Inl FileNotFoundError
     | Some (File b m) \<Rightarrow> Inl NotADirectoryError
     | Some (Dir es) \<Rightarrow> Inr es)"

text \<open>\<^verbatim>\<open>posixpath.join(a, b)\<close>.\<close>

definition os_path_join :: "string \<Rightarrow> string \<Rightarrow> string" where
  "os_path_join a b =
    (if startswith b ''/'' then b
     else if a = [] \<or> endswith a ''/'' then a @ b
     else a @ ''/'' @ b)"

subsection \<open>What the platform supplies\<close>

text \<open>
  Library routines whose results the handler only passes on are parameters of the
  model: URL handling (\<^verbatim>\<open>translate_path\<close>, \<^verbatim>\<open>urlsplit\<close>, \<^verbatim>\<open>urlunsplit\<close>), the server
  banner, date formatting and parsing, the HTML of error pages and directory listings,
  and the MIME table as \<^verbatim>\<open>mimetypes.init()\<close> leaves it (\<open>types_map\<close>, the strict table).
  \<open>parsedate_utc\<close> is \<^verbatim>\<open>email.utils.parsedate_to_datetime\<close> in seconds since the epoch;
  it is \<open>None\<close> for an ill-formed date and for a date in a zone other than UTC, the two
  cases in which \<^verbatim>\<open>send_head\<close> ignores the header. \<open>date_time_string\<close> takes the
  optional timestamp of the Python method.
\<close>

record platform =
  translate_path :: "string \<Rightarrow> string"
  urlsplit_path :: "string \<Rightarrow> string"
  redirect_url :: "string \<Rightarrow> string"
  version_string :: string
  date_time_string :: "int option \<Rightarrow> string"
  parsedate_utc :: "string \<Rightarrow> int option"
  error_page :: "nat \<Rightarrow> string \<Rightarrow> bytes"
  listing_page :: "filesystem \<Rightarrow> string \<Rightarrow> string \<Rightarrow> string list \<Rightarrow> bytes"
  filesystem_encoding :: string
  types_map :: "string \<Rightarrow> string option"

subsection \<open>Requests and the handler's output\<close>

text \<open>
  A request is an HTTP/1.x GET as \<^verbatim>\<open>parse_request\<close> leaves it: \<^verbatim>\<open>self.path\<close> (the raw
  request target, query string included) and the three request headers that are read,
  each \<open>None\<close> when the header is absent.
\<close>

record request =
  path :: string
  accept_encoding :: "string option"
  if_modified_since :: "string option"
  if_none_match :: "string option"

text \<open>
  The handler appends status line and header lines to \<^verbatim>\<open>_headers_buffer\<close>;
  \<^verbatim>\<open>end_headers\<close> adds the blank line and writes the buffer to \<^verbatim>\<open>wfile\<close>, which is
  unbuffered. Lines are kept structured instead of encoded.
\<close>

datatype wire = StatusLine nat | HeaderLine string string | BlankLine | Payload bytes

record handler =
  headers_buffer :: "wire list"
  wfile :: "wire list"

definition fresh_handler :: handler where
  "fresh_handler = \<lparr>headers_buffer = [], wfile = []\<rparr>"

definition wfile_write :: "bytes \<Rightarrow> handler \<Rightarrow> handler" where
  "wfile_write data h = h\<lparr>wfile := wfile h @ [Payload data]\<rparr>"

subsection \<open>BaseHTTPRequestHandler\<close>

definition send_response_only :: "nat \<Rightarrow> handler \<Rightarrow> handler" where
  "send_response_only code h = h\<lparr>headers_buffer := headers_buffer h @ [StatusLine code]\<rparr>"

definition send_header :: "string \<Rightarrow> string \<Rightarrow> handler \<Rightarrow> handler" where
  "send_header keyword val h = h\<lparr>headers_buffer := headers_buffer h @ [HeaderLine keyword val]\<rparr>"

definition send_response :: "platform \<Rightarrow> nat \<Rightarrow> handler \<Rightarrow> handler" where
  "send_response pf code h =
    (let h1 = send_response_only code h;
         h2 = send_header ''Server'' (version_string pf) h1
     in send_header ''Date'' (date_time_string pf None) h2)"

definition flush_headers :: "handler \<Rightarrow> handler" where
  "flush_headers h = h\<lparr>wfile := wfile h @ headers_buffer h, headers_buffer := []\<rparr>"

definition BaseHTTPRequestHandler_end_headers :: "handler \<Rightarrow> handler" where
  "BaseHTTPRequestHandler_end_headers h =
    flush_headers (h\<lparr>headers_buffer := headers_buffer h @ [BlankLine]\<rparr>)"

text \<open>\<^verbatim>\<open>str(n)\<close> for a length.\<close>

fun str_nat :: "nat \<Rightarrow> string" where
  "str_nat n =
    (if n < 10 then [''0123456789'' ! n]
     else str_nat (n div 10) @ [''0123456789'' ! (n mod 10)])"

text \<open>
  \<^verbatim>\<open>send_error\<close> for a GET request. Python calls \<^verbatim>\<open>self.end_headers()\<close>, which a
  subclass may override; the method in force is the argument \<open>eh\<close>, here and below.
\<close>

definition send_error :: "(handler \<Rightarrow> handler) \<Rightarrow> platform \<Rightarrow> nat \<Rightarrow> string \<Rightarrow> handler \<Rightarrow> handler" where
  "send_error eh pf code message h =
    (let h1 = send_response pf code h;
         h2 = send_header ''Connection'' ''close'' h1;
         with_body = (code \<ge> 200 \<and> code \<notin> {204, 205, 304});
         body = error_page pf code message;
         h3 = (if with_body
               then send_header ''Content-Length'' (str_nat (length body))
                      (send_header ''Content-Type'' ''text/html;charset=utf-8'' h2)
               else h2);
         h4 = eh h3
     in if with_body \<and> body \<noteq> [] then wfile_write body h4 else h4)"


subsection \<open>MIME types (mimetypes, posixpath.splitext)\<close>

text \<open>\<^verbatim>\<open>str.lower()\<close> on ASCII letters; other characters are left as they are.\<close>

definition lower_char :: "char \<Rightarrow> char" where
  "lower_char c =
    (case map_of (zip ''ABCDEFGHIJKLMNOPQRSTUVWXYZ'' ''abcdefghijklmnopqrstuvwxyz'') c of
       Some d \<Rightarrow> d
     | None \<Rightarrow> c)"

definition lower :: "string \<Rightarrow> string" where
  "lower s = map lower_char s"

text \<open>\<^verbatim>\<open>p.rfind(c)\<close>: the index of the last occurrence, or -1.\<close>

definition rfind :: "string \<Rightarrow> char \<Rightarrow> int" where
  "rfind p c =
    (if c \<in> set p then int (length p) - 1 - int (length (takeWhile (\<lambda>x. x \<noteq> c) (rev p)))
     else - 1)"

text \<open>
  \<^verbatim>\<open>posixpath.splitext\<close>: the extension starts at the last dot of the last path component,
  unless only dots precede it there (the loop that skips leading dots returns at the
  first other character it meets).
\<close>

definition posixpath_splitext :: "string \<Rightarrow> string \<times> string" where
  "posixpath_splitext p =
    (let sepIndex = rfind p CHR ''/'';
         dotIndex = rfind p CHR ''.''
     in if dotIndex > sepIndex
           \<and> list_ex (\<lambda>c. c \<noteq> CHR ''.'')
                (take (nat (dotIndex - (sepIndex + 1))) (drop (nat (sepIndex + 1)) p))
        then (take (nat dotIndex) p, drop (nat dotIndex) p)
        else (p, []))"

definition suffix_map :: "(string \<times> string) list" where
  "suffix_map =
    [(''.svgz'', ''.svg.gz''),
     (''.tgz'', ''.tar.gz''),
     (''.taz'', ''.tar.gz''),
     (''.tz'', ''.tar.gz''),
     (''.tbz2'', ''.tar.bz2''),
     (''.txz'', ''.tar.xz'')]"

definition encodings_map :: "(string \<times> string) list" where
  "encodings_map =
    [(''.gz'', ''gzip''),
     (''.Z'', ''compress''),
     (''.bz2'', ''bzip2''),
     (''.xz'', ''xz''),
     (''.br'', ''br'')]"

text \<open>
  The loop of \<^verbatim>\<open>MimeTypes.guess_type\<close>:
  \<^verbatim>\<open>
  while (ext_lower := ext.lower()) in self.suffix_map:
      base, ext = posixpath.splitext(base + self.suffix_map[ext_lower])
  \<close>
  It ends after one round, since no replacement suffix ends in a key of the table.
\<close>

function suffix_loop :: "string \<times> string \<Rightarrow> string \<times> string" where
  "suffix_loop (base, ext) =
    (case map_of suffix_map (lower ext) of
       None \<Rightarrow> (base, ext)
     | Some s \<Rightarrow> suffix_loop (posixpath_splitext (base @ s)))"
  by pat_completeness auto
termination
proof (relation "measure (\<lambda>(base, ext). if map_of suffix_map (lower ext) = None then 0 else 1)")
  show "wf (measure (\<lambda>(base, ext). if map_of suffix_map (lower ext) = None then 0 else (1::nat)))"
    by simp
next
  fix base ext s
  assume hit: "map_of suffix_map (lower ext) = Some s"
  let ?dot = "CHR ''.''"
  have drop_rfind: "drop (nat (rfind p c)) p = c # rev (takeWhile (\<lambda>x. x \<noteq> c) (rev p))"
    if "c \<in> set p" for p :: string and c
  proof -
    let ?t = "takeWhile (\<lambda>x. x \<noteq> c) (rev p)"
    let ?d = "dropWhile (\<lambda>x. x \<noteq> c) (rev p)"
    from that have nonempty: "?d \<noteq> []" by (simp add: dropWhile_eq_Nil_conv)
    then obtain a r where ar: "?d = a # r" by (cases ?d) auto
    have "\<not> (hd ?d \<noteq> c)" using nonempty by (rule hd_dropWhile)
    with ar have d: "?d = c # r" by simp
    have "rev p = ?t @ ?d" by simp
    with d have rp: "rev p = ?t @ c # r" by simp
    then have "rev (rev p) = rev (?t @ c # r)" by simp
    then have p: "p = rev r @ c # rev ?t" by simp
    have len: "length p = length r + 1 + length ?t"
      using arg_cong [OF rp, of length] by simp
    have "nat (rfind p c) = length r" using that len by (simp add: rfind_def)
    then have "drop (nat (rfind p c)) p = drop (length (rev r)) (rev r @ c # rev ?t)"
      using p by simp
    then show ?thesis by simp
  qed
  have ext_cases: "snd (posixpath_splitext p) = [] \<or>
     (?dot \<in> set p \<and>
      snd (posixpath_splitext p) = ?dot # rev (takeWhile (\<lambda>x. x \<noteq> ?dot) (rev p)))"
    for p
  proof (cases "?dot \<in> set p")
    case True
    then have "drop (nat (rfind p ?dot)) p = ?dot # rev (takeWhile (\<lambda>x. x \<noteq> ?dot) (rev p))"
      by (rule drop_rfind)
    with True show ?thesis
      by (simp add: posixpath_splitext_def Let_def)
  next
    case False
    then have "rfind p ?dot = - 1" by (simp add: rfind_def)
    moreover have "rfind p CHR ''/'' \<ge> - 1"
      using length_takeWhile_le [of "\<lambda>x. x \<noteq> CHR ''/''" "rev p"] by (simp add: rfind_def)
    ultimately show ?thesis by (simp add: posixpath_splitext_def Let_def)
  qed
  from hit have s: "s = ''.svg.gz'' \<or> s = ''.tar.gz'' \<or> s = ''.tar.bz2'' \<or> s = ''.tar.xz''"
    by (simp add: suffix_map_def split: if_splits)
  then have tw: "?dot # rev (takeWhile (\<lambda>x. x \<noteq> ?dot) (rev (base @ s)))
      \<in> {''.gz'', ''.bz2'', ''.xz''}"
    by (elim disjE) simp_all
  from ext_cases [of "base @ s"] tw
  have "snd (posixpath_splitext (base @ s)) \<in> {[], ''.gz'', ''.bz2'', ''.xz''}"
    by (elim disjE conjE) simp_all
  then have "lower (snd (posixpath_splitext (base @ s))) \<in> {[], ''.gz'', ''.bz2'', ''.xz''}"
    by (elim insertE emptyE) (simp_all add: lower_def lower_char_def)
  then have "map_of suffix_map (lower (snd (posixpath_splitext (base @ s)))) = None"
    by (elim insertE emptyE) (simp_all add: suffix_map_def)
  with hit show "(posixpath_splitext (base @ s), (base, ext))
       \<in> measure (\<lambda>(base, ext). if map_of suffix_map (lower ext) = None then 0 else 1)"
    by (cases "posixpath_splitext (base @ s)") simp
qed

text \<open>
  \<^verbatim>\<open>mimetypes.guess_type(path)[0]\<close> with the default \<^verbatim>\<open>strict=True\<close>, for the strict
  table \<open>tm\<close>. The argument is the absolute file name built by \<^verbatim>\<open>translate_path\<close>, in
  which \<^verbatim>\<open>urlparse\<close> finds no scheme, so the URL branches are not taken.
\<close>

definition mimetypes_guess_type :: "(string \<Rightarrow> string option) \<Rightarrow> string \<Rightarrow> string option" where
  "mimetypes_guess_type tm url =
    (case suffix_loop (posixpath_splitext url) of (base, ext) \<Rightarrow>
     case (if map_of encodings_map ext \<noteq> None then posixpath_splitext base else (base, ext)) of
       (base', ext') \<Rightarrow> tm (lower ext'))"

text \<open>\<^verbatim>\<open>mimetypes.add_type(type, ext)\<close> on the strict table.\<close>

definition add_type :: "string \<Rightarrow> string \<Rightarrow> (string \<Rightarrow> string option) \<Rightarrow> (string \<Rightarrow> string option)" where
  "add_type type ext tm = tm(ext \<mapsto> type)"

subsection \<open>SimpleHTTPRequestHandler\<close>

definition extensions_map :: "(string \<times> string) list" where
  "extensions_map =
    [(''.gz'', ''application/gzip''),
     (''.Z'', ''application/octet-stream''),
     (''.bz2'', ''application/x-bzip2''),
     (''.xz'', ''application/x-xz'')]"

definition guess_type :: "(string \<Rightarrow> string option) \<Rightarrow> string \<Rightarrow> string" where
  "guess_type tm fspath =
    (case posixpath_splitext fspath of (base, ext) \<Rightarrow>
      (case map_of extensions_map ext of
         Some t \<Rightarrow> t
       | None \<Rightarrow>
          (case map_of extensions_map (lower ext) of
             Some t \<Rightarrow> t
           | None \<Rightarrow>
              (case mimetypes_guess_type tm fspath of
                 Some guess \<Rightarrow> (if guess \<noteq> [] then guess else ''application/octet-stream'')
               | None \<Rightarrow> ''application/octet-stream''))))"

text \<open>
  The functions below return the handler after the headers went out, and the open file
  (its content) that \<^verbatim>\<open>do_GET\<close> still has to copy, if any. \<open>eh\<close> is the
  \<^verbatim>\<open>end_headers\<close> in force and \<open>tm\<close> the MIME table of the running process.
\<close>

definition list_directory ::
  "(handler \<Rightarrow> handler) \<Rightarrow> platform \<Rightarrow> filesystem \<Rightarrow> request \<Rightarrow> string \<Rightarrow> handler
    \<Rightarrow> handler \<times> bytes option" where
  "list_directory eh pf fs r fspath h =
    (case os_listdir fs fspath of
       Inl e \<Rightarrow> (send_error eh pf 404 ''No permission to list directory'' h, None)
     | Inr entries \<Rightarrow>
        (let encoded = listing_page pf fs (path r) fspath entries;
             h1 = send_response pf 200 h;
             h2 = send_header ''Content-type'' (''text/html; charset='' @ filesystem_encoding pf) h1;
             h3 = send_header ''Content-Length'' (str_nat (length encoded)) h2
         in (eh h3, Some encoded)))"

text \<open>The part of \<^verbatim>\<open>send_head\<close> from \<^verbatim>\<open>ctype = self.guess_type(path)\<close> on, for the
  file name \<open>fspath\<close> that the first part settled on.\<close>

text \<open>
  The test that lets \<^verbatim>\<open>send_head\<close> answer 304: an \<^verbatim>\<open>If-Modified-Since\<close> header is
  present, \<^verbatim>\<open>If-None-Match\<close> is not, the date parses as a UTC time, and the file was
  not modified after it.
\<close>

definition not_modified :: "platform \<Rightarrow> request \<Rightarrow> int \<Rightarrow> bool" where
  "not_modified pf r mtime =
    (if_modified_since r \<noteq> None \<and> if_none_match r = None
     \<and> (case parsedate_utc pf (the (if_modified_since r)) of
          None \<Rightarrow> False
        | Some ims \<Rightarrow> mtime \<le> ims))"

definition send_head_file ::
  "(handler \<Rightarrow> handler) \<Rightarrow> (string \<Rightarrow> string option) \<Rightarrow> platform \<Rightarrow> filesystem \<Rightarrow> request
    \<Rightarrow> string \<Rightarrow> handler \<Rightarrow> handler \<times> bytes option" where
  "send_head_file eh tm pf fs r fspath h =
    (let ctype = guess_type tm fspath
     in if endswith fspath ''/'' then (send_error eh pf 404 ''File not found'' h, None)
        else
         (case open_rb fs fspath of
            Inl e \<Rightarrow> (send_error eh pf 404 ''File not found'' h, None)
          | Inr (content, mtime) \<Rightarrow>
             (if not_modified pf r mtime
              then (eh (send_response pf 304 h), None)
              else
               (let h1 = send_response pf 200 h;
                    h2 = send_header ''Content-type'' ctype h1;
                    h3 = send_header ''Content-Length'' (str_nat (length content)) h2;
                    h4 = send_header ''Last-Modified'' (date_time_string pf (Some mtime)) h3
                in (eh h4, Some content)))))"

definition send_head ::
  "(handler \<Rightarrow> handler) \<Rightarrow> (string \<Rightarrow> string option) \<Rightarrow> platform \<Rightarrow> filesystem \<Rightarrow> request
    \<Rightarrow> handler \<Rightarrow> handler \<times> bytes option" where
  "send_head eh tm pf fs r h =
    (let fspath = translate_path pf (path r)
     in if os_path_isdir fs fspath then
          (if \<not> endswith (urlsplit_path pf (path r)) ''/'' then
             (let h1 = send_response pf 301 h;
                  h2 = send_header ''Location'' (redirect_url pf (path r)) h1;
                  h3 = send_header ''Content-Length'' ''0'' h2
              in (eh h3, None))
           else if os_path_isfile fs (os_path_join fspath ''index.html'') then
             send_head_file eh tm pf fs r (os_path_join fspath ''index.html'') h
           else if os_path_isfile fs (os_path_join fspath ''index.htm'') then
             send_head_file eh tm pf fs r (os_path_join fspath ''index.htm'') h
           else list_directory eh pf fs r fspath h)
        else send_head_file eh tm pf fs r fspath h)"

definition SimpleHTTPRequestHandler_do_GET ::
  "(handler \<Rightarrow> handler) \<Rightarrow> (string \<Rightarrow> string option) \<Rightarrow> platform \<Rightarrow> filesystem \<Rightarrow> request
    \<Rightarrow> handler \<Rightarrow> handler" where
  "SimpleHTTPRequestHandler_do_GET eh tm pf fs r h =
    (case send_head eh tm pf fs r h of
       (h', None) \<Rightarrow> h'
     | (h', Some f) \<Rightarrow> wfile_write f h')"

subsection \<open>UltraFastHandler\<close>

text \<open>Line 9 of serve.py, run once at start-up:
  \<^verbatim>\<open>mimetypes.add_type('application/wasm', '.wasm')\<close>.\<close>

definition startup_types_map :: "platform \<Rightarrow> (string \<Rightarrow> string option)" where
  "startup_types_map pf = add_type ''application/wasm'' ''.wasm'' (types_map pf)"

text \<open>\<^verbatim>\<open>self.headers.get('Accept-Encoding', '')\<close>.\<close>

definition get_accept_encoding :: "request \<Rightarrow> string" where
  "get_accept_encoding r = (case accept_encoding r of None \<Rightarrow> [] | Some v \<Rightarrow> v)"

definition end_headers :: "request \<Rightarrow> handler \<Rightarrow> handler" where
  "end_headers r h =
    (let h1 = send_header ''Cross-Origin-Opener-Policy'' ''same-origin'' h;
         h2 = send_header ''Cross-Origin-Embedder-Policy'' ''require-corp'' h1;
         h3 = (if endswith (path r) ''.wasm''
               then send_header ''Cache-Control'' ''public, max-age=31536000, immutable'' h2
               else h2)
     in BaseHTTPRequestHandler_end_headers h3)"

text \<open>
  \<^verbatim>\<open>do_GET\<close> returns the handler and the exception that escapes it, if any. The
  only statement that can raise is the \<^verbatim>\<open>open\<close> of a sibling after its headers went
  out: \<^verbatim>\<open>os.path.exists\<close> is also true of a directory.
\<close>

definition do_GET :: "platform \<Rightarrow> filesystem \<Rightarrow> request \<Rightarrow> handler \<Rightarrow> handler \<times> exn option" where
  "do_GET pf fs r h =
    (if endswith (path r) ''.wasm'' then
       (let brotli_path = path r @ ''.br'';
            gzip_path = path r @ ''.gz'';
            accept_encoding = get_accept_encoding r
        in if str_in ''br'' accept_encoding \<and> os_path_exists fs (''.'' @ brotli_path) then
             (let h1 = send_response pf 200 h;
                  h2 = send_header ''Content-Type'' ''application/wasm'' h1;
                  h3 = send_header ''Content-Encoding'' ''br'' h2;
                  h4 = send_header ''Cache-Control'' ''public, max-age=31536000, immutable'' h3;
                  h5 = end_headers r h4
              in case open_rb fs (''.'' @ brotli_path) of
                   Inl e \<Rightarrow> (h5, Some e)
                 | Inr (content, mtime) \<Rightarrow> (wfile_write content h5, None))
           else if str_in ''gzip'' accept_encoding \<and> os_path_exists fs (''.'' @ gzip_path) then
             (let h1 = send_response pf 200 h;
                  h2 = send_header ''Content-Type'' ''application/wasm'' h1;
                  h3 = send_header ''Content-Encoding'' ''gzip'' h2;
                  h4 = send_header ''Cache-Control'' ''public, max-age=31536000, immutable'' h3;
                  h5 = end_headers r h4
              in case open_rb fs (''.'' @ gzip_path) of
                   Inl e \<Rightarrow> (h5, Some e)
                 | Inr (content, mtime) \<Rightarrow> (wfile_write content h5, None))
           else
             (SimpleHTTPRequestHandler_do_GET (end_headers r) (startup_types_map pf) pf fs r h,
              None))
     else
       (SimpleHTTPRequestHandler_do_GET (end_headers r) (startup_types_map pf) pf fs r h, None))"

section \<open>Reading a response off the wire\<close>

text \<open>
  What a client finds in the output of one request: the status code, the header fields
  up to the blank line, and the body after it. Header names are compared without regard
  to case, as HTTP does; the library spells one of them \<^verbatim>\<open>Content-type\<close>.
\<close>

fun status_of :: "wire list \<Rightarrow> nat option" where
  "status_of [] = None"
| "status_of (StatusLine code # w) = Some code"
| "status_of (x # w) = status_of w"

fun header_fields :: "wire list \<Rightarrow> (string \<times> string) list" where
  "header_fields [] = []"
| "header_fields (HeaderLine k v # w) = (k, v) # header_fields w"
| "header_fields (BlankLine # w) = []"
| "header_fields (x # w) = header_fields w"

fun payload_of :: "wire list \<Rightarrow> bytes" where
  "payload_of [] = []"
| "payload_of (Payload b # w) = b @ payload_of w"
| "payload_of (x # w) = payload_of w"

fun body_of :: "wire list \<Rightarrow> bytes" where
  "body_of [] = []"
| "body_of (BlankLine # w) = payload_of w"
| "body_of (x # w) = body_of w"

definition header_values :: "string \<Rightarrow> (string \<times> string) list \<Rightarrow> string list" where
  "header_values name hs = map snd (filter (\<lambda>kv. lower (fst kv) = lower name) hs)"

text \<open>The response to one GET request on a fresh connection.\<close>

definition response :: "platform \<Rightarrow> filesystem \<Rightarrow> request \<Rightarrow> wire list" where
  "response pf fs r = wfile (fst (do_GET pf fs r fresh_handler))"

definition fault :: "platform \<Rightarrow> filesystem \<Rightarrow> request \<Rightarrow> exn option" where
  "fault pf fs r = snd (do_GET pf fs r fresh_handler)"

section \<open>Two shapes of a response\<close>

text \<open>
  What both compressed branches of \<^verbatim>\<open>do_GET\<close> have written when their headers are
  out: the inline headers, then the ones \<^verbatim>\<open>end_headers\<close> adds (the cache header a
  second time), then the blank line.
\<close>

definition compressed_response :: "platform \<Rightarrow> string \<Rightarrow> wire list" where
  "compressed_response pf enc =
    [StatusLine 200, HeaderLine ''Server'' (version_string pf),
     HeaderLine ''Date'' (date_time_string pf None),
     HeaderLine ''Content-Type'' ''application/wasm'',
     HeaderLine ''Content-Encoding'' enc,
     HeaderLine ''Cache-Control'' ''public, max-age=31536000, immutable'',
     HeaderLine ''Cross-Origin-Opener-Policy'' ''same-origin'',
     HeaderLine ''Cross-Origin-Embedder-Policy'' ''require-corp'',
     HeaderLine ''Cache-Control'' ''public, max-age=31536000, immutable'',
     BlankLine]"

text \<open>
  What \<^verbatim>\<open>end_headers\<close> guarantees of a response that the static-file code of the
  library produced: the header block is closed, it carries both isolation headers, no
  \<^verbatim>\<open>Content-Encoding\<close>, and the cache header exactly when the request path ends in
  \<^verbatim>\<open>.wasm\<close>.
\<close>

definition decorated :: "request \<Rightarrow> wire list \<Rightarrow> bool" where
  "decorated r w =
    (BlankLine \<in> set w
     \<and> (''Cross-Origin-Opener-Policy'', ''same-origin'') \<in> set (header_fields w)
     \<and> (''Cross-Origin-Embedder-Policy'', ''require-corp'') \<in> set (header_fields w)
     \<and> header_values ''Content-Encoding'' (header_fields w) = []
     \<and> header_values ''Cache-Control'' (header_fields w) =
          (if endswith (path r) ''.wasm'' then [''public, max-age=31536000, immutable''] else []))"

section \<open>A concrete platform, disks and requests\<close>

text \<open>
  One platform on which the model can be run: the server directory is \<^verbatim>\<open>/srv\<close>, and
  the request targets used below are plain paths (no query, fragment, escape or dot
  segment), for which \<^verbatim>\<open>translate_path\<close> puts the directory in front and
  \<^verbatim>\<open>urlsplit\<close> returns the target as its path. The date routines know the one instant
  the examples use, 1 January 2026 00:00:00 UTC (1767225600), and the MIME table holds
  two entries, none of them for \<^verbatim>\<open>.wasm\<close>. Error and listing pages are stand-ins.
\<close>

definition local_platform :: platform where
  "local_platform =
    \<lparr>translate_path = (\<lambda>p. ''/srv'' @ p),
     urlsplit_path = (\<lambda>p. p),
     redirect_url = (\<lambda>p. p @ ''/''),
     version_string = ''SimpleHTTP/0.6 Python/3.12.3'',
     date_time_string = (\<lambda>t. ''Thu, 01 Jan 2026 00:00:00 GMT''),
     parsedate_utc = (\<lambda>s. if s = ''Thu, 01 Jan 2026 00:00:00 GMT'' then Some 1767225600 else None),
     error_page = (\<lambda>code message. ''<h1>'' @ message @ ''</h1>''),
     listing_page = (\<lambda>fs url dir entries. ''<ul>'' @ concat entries @ ''</ul>''),
     filesystem_encoding = ''utf-8'',
     types_map = map_of [(''.html'', ''text/html''), (''.js'', ''text/javascript'')]\<rparr>"

text \<open>\<^verbatim>\<open>GET /game.wasm\<close> with the given \<^verbatim>\<open>Accept-Encoding\<close> header and no conditional
  header.\<close>

definition wasm_request :: "string option \<Rightarrow> request" where
  "wasm_request ae =
    \<lparr>path = ''/game.wasm'', accept_encoding = ae, if_modified_since = None,
     if_none_match = None\<rparr>"

text \<open>The same request with \<^verbatim>\<open>If-Modified-Since: Thu, 01 Jan 2026 00:00:00 GMT\<close>.\<close>

definition conditional_wasm_request :: request where
  "conditional_wasm_request =
    \<lparr>path = ''/game.wasm'', accept_encoding = None,
     if_modified_since = Some ''Thu, 01 Jan 2026 00:00:00 GMT'', if_none_match = None\<rparr>"


text \<open>
  Four states of the server directory. The handler names the siblings relative to the
  working directory (\<^verbatim>\<open>./game.wasm.br\<close>); the library names the asset by its absolute
  path (\<^verbatim>\<open>/srv/game.wasm\<close>).
\<close>

definition disk_full :: filesystem where
  "disk_full =
    map_of
     [(''/srv'', Dir [''game.wasm'', ''game.wasm.br'', ''game.wasm.gz'']),
      (''/srv/game.wasm'', File ''RAW-WASM-BYTES'' 1767225600),
      (''./game.wasm.br'', File ''BROTLI-BYTES'' 1767225600),
      (''./game.wasm.gz'', File ''GZIP-BYTES'' 1767225600)]"

definition disk_raw_only :: filesystem where
  "disk_raw_only =
    map_of
     [(''/srv'', Dir [''game.wasm'']),
      (''/srv/game.wasm'', File ''RAW-WASM-BYTES'' 1767225600)]"

definition disk_br_only :: filesystem where
  "disk_br_only =
    map_of
     [(''/srv'', Dir [''game.wasm.br'']),
      (''./game.wasm.br'', File ''BROTLI-BYTES'' 1767225600)]"


section \<open>Reading the patchers' results\<close>

text \<open>The version recorded for a key in the \<^verbatim>\<open>dependencies\<close> section of a manifest, when
  the manifest is an object whose \<^verbatim>\<open>dependencies\<close> entry is an object holding the key.\<close>

definition dep_value :: "json \<Rightarrow> string \<Rightarrow> json option" where
  "dep_value package k =
    (case package of
       JObj kvs \<Rightarrow>
        (case map_of kvs ''dependencies'' of
           Some (JObj deps) \<Rightarrow> map_of deps k
         | _ \<Rightarrow> None)
     | _ \<Rightarrow> None)"

definition manifest_with_deps :: json where
  "manifest_with_deps =
    JObj [(''name'', JStr ''app''),
          (''dependencies'',
           JObj [(''express'', JStr ''^3.0.0''), (''left-pad'', JStr ''1.0.0'')])]"

definition manifest_without_deps :: json where
  "manifest_without_deps = JObj [(''name'', JStr ''app''), (''version'', JStr ''1.0.0'')]"

(*THEOREMS*)

section \<open>Properties of the manifest patchers\<close>

lemma merge_step_object:
  assumes "map_of kvs ''dependencies'' = Some (JObj deps)"
  shows "\<exists>kvs' deps' n'. merge_step dv (JObj kvs, n) = Inr (JObj kvs', n')
           \<and> map_of kvs' ''dependencies'' = Some (JObj deps')
           \<and> map_of deps \<subseteq>\<^sub>m map_of deps'"
proof (cases dv)
  case (Pair dep version)
  show ?thesis
  proof (cases "dep \<in> set (map fst deps)")
    case True
    with assms Pair show ?thesis
      by (simp add: merge_step_def)
  next
    case False
    then have "map_of deps dep = None"
      by (simp add: map_of_eq_None_iff)
    then have "map_of deps \<subseteq>\<^sub>m map_of (AList.update dep (JStr version) deps)"
      by (auto simp: update_conv' map_le_def)
    with assms Pair False show ?thesis
      by (simp add: merge_step_def update_conv')
  qed
qed

lemma merge_loop_object:
  assumes "map_of kvs ''dependencies'' = Some (JObj deps)"
  shows "\<exists>kvs' deps' n'. merge_loop dvs (JObj kvs, n) = Inr (JObj kvs', n')
           \<and> map_of kvs' ''dependencies'' = Some (JObj deps')
           \<and> map_of deps \<subseteq>\<^sub>m map_of deps'"
  using assms
proof (induction dvs arbitrary: kvs deps n)
  case Nil
  then show ?case by simp
next
  case (Cons dv dvs)
  from merge_step_object [OF Cons.prems, of dv n]
  obtain kvs1 deps1 n1 where
    step: "merge_step dv (JObj kvs, n) = Inr (JObj kvs1, n1)"
    and sec: "map_of kvs1 ''dependencies'' = Some (JObj deps1)"
    and le1: "map_of deps \<subseteq>\<^sub>m map_of deps1"
    by blast
  from Cons.IH [OF sec, of n1]
  obtain kvs2 deps2 n2 where
    rest: "merge_loop dvs (JObj kvs1, n1) = Inr (JObj kvs2, n2)"
    and sec2: "map_of kvs2 ''dependencies'' = Some (JObj deps2)"
    and le2: "map_of deps1 \<subseteq>\<^sub>m map_of deps2"
    by blast
  from le1 le2 have "map_of deps \<subseteq>\<^sub>m map_of deps2"
    by (rule map_le_trans)
  with step rest sec2 show ?case by simp
qed

text \<open>
  Claim C8. Whenever the manifest read from package.json is an object whose
  \<^verbatim>\<open>dependencies\<close> section already records a version \<open>v\<close> for a key \<open>k\<close>, each of the two
  patchers runs to completion and the manifest it leaves in package.json still records
  \<open>v\<close> for \<open>k\<close>: the merge adds missing keys and never overwrites one that is there.
\<close>

theorem existing_dependency_unchanged:
  assumes "dep_value (JObj kvs) k = Some v"
  shows "(\<exists>out. add_deps (JObj kvs) = Inr out \<and> dep_value out k = Some v)
       \<and> (\<exists>out. add_all_deps (JObj kvs) = Inr out \<and> dep_value out k = Some v)"
proof -
  from assms obtain deps where
    sec: "map_of kvs ''dependencies'' = Some (JObj deps)" and kv: "map_of deps k = Some v"
    by (auto simp: dep_value_def split: option.splits json.splits)
  from sec have present: "''dependencies'' \<in> set (map fst kvs)"
    by (metis map_of_eq_None_iff option.distinct(1) set_map)
  have keep: "dep_value (JObj kvs') k = Some v"
    if "map_of kvs' ''dependencies'' = Some (JObj deps')" "map_of deps \<subseteq>\<^sub>m map_of deps'"
    for kvs' deps'
    using that kv by (auto simp: dep_value_def map_le_def dom_def)
  from merge_loop_object [OF sec, of missing_deps 0]
  obtain kvs1 deps1 n1 where
    "merge_loop missing_deps (JObj kvs, 0) = Inr (JObj kvs1, n1)"
    "map_of kvs1 ''dependencies'' = Some (JObj deps1)" "map_of deps \<subseteq>\<^sub>m map_of deps1"
    by blast
  with present keep have a: "\<exists>out. add_deps (JObj kvs) = Inr out \<and> dep_value out k = Some v"
    by (simp add: add_deps_def)
  from merge_loop_object [OF sec, of all_deps 0]
  obtain kvs2 deps2 n2 where
    "merge_loop all_deps (JObj kvs, 0) = Inr (JObj kvs2, n2)"
    "map_of kvs2 ''dependencies'' = Some (JObj deps2)" "map_of deps \<subseteq>\<^sub>m map_of deps2"
    by blast
  with keep assms have b: "\<exists>out. add_all_deps (JObj kvs) = Inr out \<and> dep_value out k = Some v"
    by (simp add: add_all_deps_def)
  from a b show ?thesis ..
qed

theorem existing_dependency_unchanged_witness:
  "dep_value manifest_with_deps ''express'' = Some (JStr ''^3.0.0'')
   \<and> (\<exists>out. add_deps manifest_with_deps = Inr out
          \<and> dep_value out ''express'' = Some (JStr ''^3.0.0''))
   \<and> (\<exists>out. add_all_deps manifest_with_deps = Inr out
          \<and> dep_value out ''express'' = Some (JStr ''^3.0.0''))"
proof -
  have h: "dep_value (JObj [(''name'', JStr ''app''),
            (''dependencies'',
             JObj [(''express'', JStr ''^3.0.0''), (''left-pad'', JStr ''1.0.0'')])])
           ''express'' = Some (JStr ''^3.0.0'')"
    by (simp add: dep_value_def)
  from existing_dependency_unchanged [OF h] h show ?thesis
    by (simp add: manifest_with_deps_def)
qed

text \<open>
  Claim C9. A manifest that is a JSON object without a \<^verbatim>\<open>dependencies\<close> key should be
  patched without a fault by both scripts. add\_deps.py creates the section first and
  then fills it; add\_all\_deps.py indexes \<^verbatim>\<open>package['dependencies']\<close> without that guard
  and stops with a KeyError, writing nothing.
\<close>

theorem add_all_deps_missing_section_fault:
  "add_all_deps manifest_without_deps = Inl (KeyError ''dependencies'')
   \<and> add_deps manifest_without_deps =
       Inr (JObj [(''name'', JStr ''app''), (''version'', JStr ''1.0.0''),
                  (''dependencies'', JObj (map (\<lambda>(dep, version). (dep, JStr version)) missing_deps))])"
  by (simp add: manifest_without_deps_def add_all_deps_def add_deps_def all_deps_def
      missing_deps_def merge_step_def)

section \<open>Properties of the static server\<close>

subsection \<open>Strings\<close>

lemma startswith_iff: "startswith s pre \<longleftrightarrow> (\<exists>post. s = pre @ post)"
proof
  assume "startswith s pre"
  then have "s = pre @ drop (length pre) s"
    unfolding startswith_def using append_take_drop_id [of "length pre" s] by simp
  then show "\<exists>post. s = pre @ post" ..
next
  assume "\<exists>post. s = pre @ post"
  then show "startswith s pre" by (auto simp: startswith_def)
qed

lemma endswith_iff: "endswith s suf \<longleftrightarrow> (\<exists>pre. s = pre @ suf)"
proof
  assume "endswith s suf"
  then have "drop (length s - length suf) s = suf" by (simp add: endswith_def)
  then have "s = take (length s - length suf) s @ suf"
    using append_take_drop_id [of "length s - length suf" s] by simp
  then show "\<exists>pre. s = pre @ suf" ..
next
  assume "\<exists>pre. s = pre @ suf"
  then show "endswith s suf" by (auto simp: endswith_def)
qed

lemma str_in_iff: "str_in sub s \<longleftrightarrow> (\<exists>pre post. s = pre @ sub @ post)"
proof (induction s)
  case Nil
  then show ?case by simp
next
  case (Cons c cs)
  show ?case
  proof
    assume "str_in sub (c # cs)"
    then consider "startswith (c # cs) sub" | "str_in sub cs" by auto
    then show "\<exists>pre post. c # cs = pre @ sub @ post"
    proof cases
      case 1
      then obtain post where "c # cs = sub @ post" by (auto simp: startswith_iff)
      then have "c # cs = [] @ sub @ post" by simp
      then show ?thesis by blast
    next
      case 2
      with Cons.IH obtain pre post where "cs = pre @ sub @ post" by blast
      then have "c # cs = (c # pre) @ sub @ post" by simp
      then show ?thesis by blast
    qed
  next
    assume "\<exists>pre post. c # cs = pre @ sub @ post"
    then obtain pre post where eq: "c # cs = pre @ sub @ post" by blast
    show "str_in sub (c # cs)"
    proof (cases pre)
      case Nil
      with eq have "c # cs = sub @ post" by simp
      then have "startswith (c # cs) sub" unfolding startswith_iff by blast
      then show ?thesis by simp
    next
      case (Cons a pre')
      with eq have "cs = pre' @ sub @ post" by simp
      with Cons.IH have "str_in sub cs" by blast
      then show ?thesis by simp
    qed
  qed
qed

lemma lower_names:
  "lower ''Server'' = ''server''"
  "lower ''Date'' = ''date''"
  "lower ''Connection'' = ''connection''"
  "lower ''Location'' = ''location''"
  "lower ''Content-Type'' = ''content-type''"
  "lower ''Content-type'' = ''content-type''"
  "lower ''Content-Length'' = ''content-length''"
  "lower ''Content-Encoding'' = ''content-encoding''"
  "lower ''Last-Modified'' = ''last-modified''"
  "lower ''Cache-Control'' = ''cache-control''"
  "lower ''Cross-Origin-Opener-Policy'' = ''cross-origin-opener-policy''"
  "lower ''Cross-Origin-Embedder-Policy'' = ''cross-origin-embedder-policy''"
  by (simp_all add: lower_def lower_char_def)

subsection \<open>The handler's output, step by step\<close>

lemma send_header_eq:
  "send_header k v \<lparr>headers_buffer = b, wfile = w\<rparr> = \<lparr>headers_buffer = b @ [HeaderLine k v], wfile = w\<rparr>"
  by (simp add: send_header_def)

lemma send_response_eq:
  "send_response pf code \<lparr>headers_buffer = b, wfile = w\<rparr> =
    \<lparr>headers_buffer = b @ [StatusLine code, HeaderLine ''Server'' (version_string pf),
                          HeaderLine ''Date'' (date_time_string pf None)],
     wfile = w\<rparr>"
  by (simp add: send_response_def send_response_only_def send_header_def)

lemma end_headers_eq:
  "end_headers r \<lparr>headers_buffer = b, wfile = w\<rparr> =
    \<lparr>headers_buffer = [],
     wfile = w @ b @ [HeaderLine ''Cross-Origin-Opener-Policy'' ''same-origin'',
                      HeaderLine ''Cross-Origin-Embedder-Policy'' ''require-corp'']
              @ (if endswith (path r) ''.wasm''
                 then [HeaderLine ''Cache-Control'' ''public, max-age=31536000, immutable'']
                 else [])
              @ [BlankLine]\<rparr>"
  by (simp add: end_headers_def send_header_def BaseHTTPRequestHandler_end_headers_def
      flush_headers_def)

lemma wfile_write_eq:
  "wfile_write data \<lparr>headers_buffer = b, wfile = w\<rparr> = \<lparr>headers_buffer = b, wfile = w @ [Payload data]\<rparr>"
  by (simp add: wfile_write_def)

lemmas handler_eqs = send_header_eq send_response_eq end_headers_eq wfile_write_eq

lemma header_fields_snoc_payload: "header_fields (w @ [Payload b]) = header_fields w"
  by (induction w rule: header_fields.induct) simp_all

lemma status_of_snoc_payload: "status_of (w @ [Payload b]) = status_of w"
  by (induction w rule: status_of.induct) simp_all

lemma payload_of_snoc: "payload_of (w @ [Payload b]) = payload_of w @ b"
  by (induction w rule: payload_of.induct) simp_all

lemma body_of_snoc_payload: "BlankLine \<in> set w \<Longrightarrow> body_of (w @ [Payload b]) = body_of w @ b"
  by (induction w rule: body_of.induct) (simp_all add: payload_of_snoc)

lemma send_error_404:
  "send_error (end_headers r) pf 404 message fresh_handler =
    \<lparr>headers_buffer = [],
     wfile = [StatusLine 404, HeaderLine ''Server'' (version_string pf),
              HeaderLine ''Date'' (date_time_string pf None),
              HeaderLine ''Connection'' ''close'',
              HeaderLine ''Content-Type'' ''text/html;charset=utf-8'',
              HeaderLine ''Content-Length'' (str_nat (length (error_page pf 404 message))),
              HeaderLine ''Cross-Origin-Opener-Policy'' ''same-origin'',
              HeaderLine ''Cross-Origin-Embedder-Policy'' ''require-corp'']
             @ (if endswith (path r) ''.wasm''
                then [HeaderLine ''Cache-Control'' ''public, max-age=31536000, immutable'']
                else [])
             @ [BlankLine]
             @ (if error_page pf 404 message \<noteq> [] then [Payload (error_page pf 404 message)] else [])\<rparr>"
  by (simp add: send_error_def fresh_handler_def handler_eqs Let_def)

subsection \<open>The static-file path always passes through the decorated end\_headers\<close>

lemma decorated_snoc_payload: "decorated r w \<Longrightarrow> decorated r (w @ [Payload b])"
  by (simp add: decorated_def header_fields_snoc_payload)

lemma decorated_send_error:
  "decorated r (wfile (send_error (end_headers r) pf 404 message fresh_handler))"
  by (simp add: send_error_404 decorated_def header_values_def lower_names)

lemma decorated_list_directory:
  "decorated r (wfile (fst (list_directory (end_headers r) pf fs r fspath fresh_handler)))"
proof (cases "os_listdir fs fspath")
  case (Inl e)
  then show ?thesis
    by (simp add: list_directory_def decorated_send_error)
next
  case (Inr entries)
  then show ?thesis
    by (simp add: list_directory_def fresh_handler_def handler_eqs Let_def decorated_def
        header_values_def lower_names)
qed

lemma decorated_send_head_file:
  "decorated r (wfile (fst (send_head_file (end_headers r) tm pf fs r fspath fresh_handler)))"
proof (cases "endswith fspath ''/''")
  case True
  then show ?thesis by (simp add: send_head_file_def decorated_send_error)
next
  case slash: False
  show ?thesis
  proof (cases "open_rb fs fspath")
    case (Inl e)
    with slash show ?thesis by (simp add: send_head_file_def decorated_send_error)
  next
    case (Inr cm)
    obtain content mtime where cm: "cm = (content, mtime)" by (cases cm)
    show ?thesis
    proof (cases "not_modified pf r mtime")
      case True
      with slash Inr cm show ?thesis
        by (simp add: send_head_file_def fresh_handler_def handler_eqs decorated_def
            header_values_def lower_names)
    next
      case False
      with slash Inr cm show ?thesis
        by (simp add: send_head_file_def fresh_handler_def handler_eqs Let_def decorated_def
            header_values_def lower_names)
    qed
  qed
qed

lemma decorated_send_head:
  "decorated r (wfile (fst (send_head (end_headers r) tm pf fs r fresh_handler)))"
proof (cases "os_path_isdir fs (translate_path pf (path r))")
  case False
  then show ?thesis by (simp add: send_head_def Let_def decorated_send_head_file)
next
  case dir: True
  show ?thesis
  proof (cases "endswith (urlsplit_path pf (path r)) ''/''")
    case False
    with dir show ?thesis
      by (simp add: send_head_def fresh_handler_def handler_eqs Let_def decorated_def
          header_values_def lower_names)
  next
    case True
    with dir show ?thesis
      by (simp add: send_head_def Let_def decorated_send_head_file decorated_list_directory)
  qed
qed

lemma decorated_fallback:
  "decorated r (wfile (SimpleHTTPRequestHandler_do_GET (end_headers r) tm pf fs r fresh_handler))"
proof (cases "send_head (end_headers r) tm pf fs r fresh_handler")
  case (Pair h' f)
  with decorated_send_head [of r tm pf fs] have d: "decorated r (wfile h')" by simp
  show ?thesis
  proof (cases f)
    case None
    with Pair d show ?thesis by (simp add: SimpleHTTPRequestHandler_do_GET_def)
  next
    case (Some content)
    with Pair d show ?thesis
      by (simp add: SimpleHTTPRequestHandler_do_GET_def wfile_write_def decorated_snoc_payload)
  qed
qed

subsection \<open>The three branches of do\_GET\<close>

lemma do_GET_fallback:
  assumes "\<not> (endswith (path r) ''.wasm'' \<and> str_in ''br'' (get_accept_encoding r)
              \<and> os_path_exists fs (''.'' @ path r @ ''.br''))"
      and "\<not> (endswith (path r) ''.wasm'' \<and> str_in ''gzip'' (get_accept_encoding r)
              \<and> os_path_exists fs (''.'' @ path r @ ''.gz''))"
  shows "do_GET pf fs r h =
          (SimpleHTTPRequestHandler_do_GET (end_headers r) (startup_types_map pf) pf fs r h, None)"
  using assms by (auto simp: do_GET_def Let_def)

lemma response_fallback:
  assumes "\<not> (endswith (path r) ''.wasm'' \<and> str_in ''br'' (get_accept_encoding r)
              \<and> os_path_exists fs (''.'' @ path r @ ''.br''))"
      and "\<not> (endswith (path r) ''.wasm'' \<and> str_in ''gzip'' (get_accept_encoding r)
              \<and> os_path_exists fs (''.'' @ path r @ ''.gz''))"
  shows "response pf fs r =
          wfile (SimpleHTTPRequestHandler_do_GET (end_headers r) (startup_types_map pf) pf fs r
                   fresh_handler)"
    and "fault pf fs r = None"
  using do_GET_fallback [OF assms] by (simp_all add: response_def fault_def)

lemma do_GET_brotli:
  assumes "endswith (path r) ''.wasm''" and "str_in ''br'' (get_accept_encoding r)"
      and "os_path_exists fs (''.'' @ path r @ ''.br'')"
  shows "do_GET pf fs r fresh_handler =
          (case open_rb fs (''.'' @ path r @ ''.br'') of
             Inl e \<Rightarrow> (\<lparr>headers_buffer = [], wfile = compressed_response pf ''br''\<rparr>, Some e)
           | Inr (content, mtime) \<Rightarrow>
              (\<lparr>headers_buffer = [], wfile = compressed_response pf ''br'' @ [Payload content]\<rparr>, None))"
  using assms
  by (simp add: do_GET_def Let_def fresh_handler_def handler_eqs compressed_response_def
      split: sum.split prod.split)

lemma do_GET_gzip:
  assumes "endswith (path r) ''.wasm''" and "str_in ''gzip'' (get_accept_encoding r)"
      and "os_path_exists fs (''.'' @ path r @ ''.gz'')"
      and "\<not> (str_in ''br'' (get_accept_encoding r) \<and> os_path_exists fs (''.'' @ path r @ ''.br''))"
  shows "do_GET pf fs r fresh_handler =
          (case open_rb fs (''.'' @ path r @ ''.gz'') of
             Inl e \<Rightarrow> (\<lparr>headers_buffer = [], wfile = compressed_response pf ''gzip''\<rparr>, Some e)
           | Inr (content, mtime) \<Rightarrow>
              (\<lparr>headers_buffer = [], wfile = compressed_response pf ''gzip'' @ [Payload content]\<rparr>, None))"
  using assms
  by (simp add: do_GET_def Let_def fresh_handler_def handler_eqs compressed_response_def
      split: sum.split prod.split)

lemma compressed_response_read:
  "status_of (compressed_response pf enc @ w) = Some 200"
  "header_fields (compressed_response pf enc @ w) = header_fields (compressed_response pf enc)"
  "body_of (compressed_response pf enc @ [Payload b]) = b"
  "header_values ''Content-Encoding'' (header_fields (compressed_response pf enc)) = [enc]"
  "header_values ''Content-Type'' (header_fields (compressed_response pf enc)) = [''application/wasm'']"
  "(''Cross-Origin-Opener-Policy'', ''same-origin'') \<in> set (header_fields (compressed_response pf enc))"
  "(''Cross-Origin-Embedder-Policy'', ''require-corp'') \<in> set (header_fields (compressed_response pf enc))"
  by (simp_all add: compressed_response_def header_values_def lower_names)

lemma response_brotli_file:
  assumes "endswith (path r) ''.wasm''" and "str_in ''br'' (get_accept_encoding r)"
      and "fs (''.'' @ path r @ ''.br'') = Some (File b t)"
  shows "response pf fs r = compressed_response pf ''br'' @ [Payload b]"
    and "fault pf fs r = None"
proof -
  from assms(3) have "os_path_exists fs (''.'' @ path r @ ''.br'')"
    by (simp add: os_path_exists_def)
  from do_GET_brotli [OF assms(1,2) this, of pf] assms(3)
  show "response pf fs r = compressed_response pf ''br'' @ [Payload b]" and "fault pf fs r = None"
    by (simp_all add: response_def fault_def open_rb_def)
qed

lemma response_gzip_file:
  assumes "endswith (path r) ''.wasm''" and "str_in ''gzip'' (get_accept_encoding r)"
      and "fs (''.'' @ path r @ ''.gz'') = Some (File b t)"
      and "\<not> (str_in ''br'' (get_accept_encoding r) \<and> os_path_exists fs (''.'' @ path r @ ''.br''))"
  shows "response pf fs r = compressed_response pf ''gzip'' @ [Payload b]"
    and "fault pf fs r = None"
proof -
  from assms(3) have "os_path_exists fs (''.'' @ path r @ ''.gz'')"
    by (simp add: os_path_exists_def)
  from do_GET_gzip [OF assms(1,2) this assms(4), of pf] assms(3)
  show "response pf fs r = compressed_response pf ''gzip'' @ [Payload b]" and "fault pf fs r = None"
    by (simp_all add: response_def fault_def open_rb_def)
qed

lemma content_encoding_of_response:
  "header_values ''Content-Encoding'' (header_fields (response pf fs r)) =
    (if endswith (path r) ''.wasm'' \<and> str_in ''br'' (get_accept_encoding r)
        \<and> os_path_exists fs (''.'' @ path r @ ''.br'') then [''br'']
     else if endswith (path r) ''.wasm'' \<and> str_in ''gzip'' (get_accept_encoding r)
        \<and> os_path_exists fs (''.'' @ path r @ ''.gz'') then [''gzip'']
     else [])"
proof -
  consider
    (br) "endswith (path r) ''.wasm''" "str_in ''br'' (get_accept_encoding r)"
         "os_path_exists fs (''.'' @ path r @ ''.br'')"
  | (gz) "endswith (path r) ''.wasm''" "str_in ''gzip'' (get_accept_encoding r)"
         "os_path_exists fs (''.'' @ path r @ ''.gz'')"
         "\<not> (str_in ''br'' (get_accept_encoding r) \<and> os_path_exists fs (''.'' @ path r @ ''.br''))"
  | (raw) "\<not> (endswith (path r) ''.wasm'' \<and> str_in ''br'' (get_accept_encoding r)
              \<and> os_path_exists fs (''.'' @ path r @ ''.br''))"
          "\<not> (endswith (path r) ''.wasm'' \<and> str_in ''gzip'' (get_accept_encoding r)
              \<and> os_path_exists fs (''.'' @ path r @ ''.gz''))"
    by blast
  then show ?thesis
  proof cases
    case br
    have "header_fields (response pf fs r) = header_fields (compressed_response pf ''br'')"
      using do_GET_brotli [OF br, of pf]
      by (cases "open_rb fs (''.'' @ path r @ ''.br'')")
         (auto simp: response_def compressed_response_read(2))
    with br show ?thesis by (simp add: compressed_response_read(4))
  next
    case gz
    have "header_fields (response pf fs r) = header_fields (compressed_response pf ''gzip'')"
      using do_GET_gzip [OF gz, of pf]
      by (cases "open_rb fs (''.'' @ path r @ ''.gz'')")
         (auto simp: response_def compressed_response_read(2))
    with gz show ?thesis by (auto simp: compressed_response_read(4))
  next
    case raw
    from decorated_fallback [of r "startup_types_map pf" pf fs] response_fallback(1) [OF raw, of pf]
    have "header_values ''Content-Encoding'' (header_fields (response pf fs r)) = []"
      by (simp add: decorated_def)
    with raw show ?thesis by auto
  qed
qed

subsection \<open>Claims about the server\<close>



text \<open>
  Claim C2. For a request path ending in \<^verbatim>\<open>.wasm\<close>, when the \<^verbatim>\<open>Accept-Encoding\<close> value
  contains both \<^verbatim>\<open>br\<close> and \<^verbatim>\<open>gzip\<close> and both sibling files exist, the response is 200
  with the bytes of the \<^verbatim>\<open>.br\<close> sibling and \<^verbatim>\<open>Content-Encoding: br\<close>, and no exception
  escapes.
\<close>

theorem brotli_preferred:
  assumes "endswith (path r) ''.wasm''"
      and "str_in ''br'' (get_accept_encoding r)" and "str_in ''gzip'' (get_accept_encoding r)"
      and "fs (''.'' @ path r @ ''.br'') = Some (File br_bytes t1)"
      and "fs (''.'' @ path r @ ''.gz'') = Some (File gz_bytes t2)"
  shows "status_of (response pf fs r) = Some 200
       \<and> body_of (response pf fs r) = br_bytes
       \<and> header_values ''Content-Encoding'' (header_fields (response pf fs r)) = [''br'']
       \<and> fault pf fs r = None"
  using response_brotli_file [where r = r and fs = fs and pf = pf, OF assms(1,2,4)]
  by (simp add: compressed_response_read)

text \<open>Evaluating the sample request and disks.\<close>

lemma wasm_request_simps:
  "path (wasm_request ae) = ''/game.wasm''"
  "get_accept_encoding (wasm_request (Some a)) = a"
  "get_accept_encoding (wasm_request None) = []"
  "endswith ''/game.wasm'' ''.wasm''"
  by (simp_all add: wasm_request_def get_accept_encoding_def endswith_def)

lemma disk_full_simps:
  "disk_full ''./game.wasm.br'' = Some (File ''BROTLI-BYTES'' 1767225600)"
  "disk_full ''./game.wasm.gz'' = Some (File ''GZIP-BYTES'' 1767225600)"
  "disk_full ''/srv/game.wasm'' = Some (File ''RAW-WASM-BYTES'' 1767225600)"
  by (simp_all add: disk_full_def)

theorem brotli_preferred_witness:
  "str_in ''br'' ''gzip, deflate, br'' \<and> str_in ''gzip'' ''gzip, deflate, br''
   \<and> status_of (response local_platform disk_full (wasm_request (Some ''gzip, deflate, br''))) = Some 200
   \<and> body_of (response local_platform disk_full (wasm_request (Some ''gzip, deflate, br''))) = ''BROTLI-BYTES''
   \<and> header_values ''Content-Encoding''
        (header_fields (response local_platform disk_full (wasm_request (Some ''gzip, deflate, br'')))) = [''br'']
   \<and> fault local_platform disk_full (wasm_request (Some ''gzip, deflate, br'')) = None"
proof -
  have a: "str_in ''br'' ''gzip, deflate, br''" and b: "str_in ''gzip'' ''gzip, deflate, br''"
    by (simp_all add: startswith_def)
  from brotli_preferred [of "wasm_request (Some ''gzip, deflate, br'')" disk_full
      "''BROTLI-BYTES''" 1767225600 "''GZIP-BYTES''" 1767225600 local_platform] a b
  show ?thesis by (simp add: wasm_request_simps disk_full_simps)
qed

text \<open>
  Claim C3. For a request path ending in \<^verbatim>\<open>.wasm\<close>, when the \<^verbatim>\<open>Accept-Encoding\<close> value
  contains \<^verbatim>\<open>gzip\<close> but not \<^verbatim>\<open>br\<close> and both sibling files exist, the response is 200
  with the bytes of the \<^verbatim>\<open>.gz\<close> sibling and \<^verbatim>\<open>Content-Encoding: gzip\<close>.
\<close>

theorem gzip_when_no_brotli_token:
  assumes "endswith (path r) ''.wasm''"
      and "str_in ''gzip'' (get_accept_encoding r)" and "\<not> str_in ''br'' (get_accept_encoding r)"
      and "fs (''.'' @ path r @ ''.br'') = Some (File br_bytes t1)"
      and "fs (''.'' @ path r @ ''.gz'') = Some (File gz_bytes t2)"
  shows "status_of (response pf fs r) = Some 200
       \<and> body_of (response pf fs r) = gz_bytes
       \<and> header_values ''Content-Encoding'' (header_fields (response pf fs r)) = [''gzip'']
       \<and> fault pf fs r = None"
proof -
  from assms(3) have "\<not> (str_in ''br'' (get_accept_encoding r)
      \<and> os_path_exists fs (''.'' @ path r @ ''.br''))" by simp
  from response_gzip_file [where r = r and fs = fs and pf = pf, OF assms(1,2,5) this]
  show ?thesis by (simp add: compressed_response_read)
qed

theorem gzip_when_no_brotli_token_witness:
  "str_in ''gzip'' ''gzip, deflate'' \<and> \<not> str_in ''br'' ''gzip, deflate''
   \<and> status_of (response local_platform disk_full (wasm_request (Some ''gzip, deflate''))) = Some 200
   \<and> body_of (response local_platform disk_full (wasm_request (Some ''gzip, deflate''))) = ''GZIP-BYTES''
   \<and> header_values ''Content-Encoding''
        (header_fields (response local_platform disk_full (wasm_request (Some ''gzip, deflate'')))) = [''gzip'']
   \<and> fault local_platform disk_full (wasm_request (Some ''gzip, deflate'')) = None"
proof -
  have a: "str_in ''gzip'' ''gzip, deflate''" and b: "\<not> str_in ''br'' ''gzip, deflate''"
    by (simp_all add: startswith_def)
  from gzip_when_no_brotli_token [of "wasm_request (Some ''gzip, deflate'')" disk_full
      "''BROTLI-BYTES''" 1767225600 "''GZIP-BYTES''" 1767225600 local_platform] a b
  show ?thesis by (simp add: wasm_request_simps disk_full_simps)
qed

end
